theory Spec2Isabelle
  imports Main
begin

section \<open>Values exchanged with the Neo4j driver\<close>

text \<open>
  The wrapper \<open>Neo4jLiaison\<close> forwards every call to the Neo4j Python driver. The driver
  and the database behind it are not part of the program: they appear here as parameters
  (the functions stored in the \<open>driver\<close> and \<open>session\<close> objects), and every call the
  wrapper makes to them is written to a trace.

  A value is what a Cypher query can return or take as a parameter. A node carries its
  properties as name-value pairs (what \<open>node.items()\<close> iterates over); a Python dictionary
  is an association list in insertion order.
\<close>

datatype val =
    VNone
  | VBool bool
  | VInt int
  | VStr string
  | VList "val list"
  | VMap "(string \<times> val) list"
  | VNode "(string \<times> val) list"

type_synonym pydict = "(string \<times> val) list"

text \<open>A \<open>neo4j.Record\<close>: the field names of the query's RETURN and their values, by position.\<close>

type_synonym neo_record = "(string \<times> val) list"

text \<open>
  The exceptions a method can end with. \<open>DriverError\<close> is anything the driver raises,
  with its message; \<open>Exception\<close> is raised by the wrapper's own \<open>raise Exception(msg)\<close>;
  the others are raised by Python itself on the wrapper's own expressions.
\<close>

datatype error =
    DriverError string
  | Exception string
  | IndexError
  | KeyError string
  | AttributeError
  | AssertionError string

section \<open>The driver, its sessions and the trace of calls\<close>

datatype call =
    CallClose
  | CallSession
  | CallRun nat string pydict

text \<open>
  A session object has an identity and answers \<open>run(cypher, parameters)\<close>; the answer
  may depend on every call made so far (the database changes), and is either the message
  of the exception raised or the records of the result (a result object is taken as the
  list of its records, an exception while they are fetched as raised by \<open>run\<close>). A driver
  object answers \<open>close()\<close> and \<open>session()\<close>.
\<close>

record session =
  sid :: nat
  s_run :: "call list \<Rightarrow> string \<Rightarrow> pydict \<Rightarrow> string + neo_record list"

record driver =
  d_close :: "call list \<Rightarrow> string option"
  d_session :: "call list \<Rightarrow> string + session"

text \<open>The two fields of a \<open>Neo4jLiaison\<close> object, \<open>_driver\<close> and \<open>_current_session\<close>.\<close>

record liaison =
  p_driver :: "driver option"
  p_current_session :: "session option"

record system =
  self :: liaison
  calls :: "call list"

type_synonym 'a outcome = "(error + 'a) \<times> system"

definition session_run :: "session \<Rightarrow> string \<Rightarrow> pydict \<Rightarrow> system \<Rightarrow> (neo_record list) outcome" where
  "session_run sess cypher ps st =
     (let st' = st\<lparr>calls := calls st @ [CallRun (sid sess) cypher ps]\<rparr> in
      case s_run sess (calls st) cypher ps of
        Inl msg \<Rightarrow> (Inl (DriverError msg), st')
      | Inr records \<Rightarrow> (Inr records, st'))"

section \<open>Python built-ins and the driver's result objects\<close>

text \<open>\<open>d[k] = v\<close> on a dictionary: an existing key keeps its place, a new key goes last.\<close>

fun dict_set :: "pydict \<Rightarrow> string \<Rightarrow> val \<Rightarrow> pydict" where
  "dict_set [] k v = [(k, v)]"
| "dict_set ((k', v') # d) k v =
     (if k' = k then (k', v) # d else (k', v') # dict_set d k v)"

text \<open>\<open>dict(pairs)\<close>: the pairs are stored one after the other.\<close>

definition py_dict :: "(string \<times> val) list \<Rightarrow> pydict" where
  "py_dict pairs = foldl (\<lambda>d (k, v). dict_set d k v) [] pairs"

text \<open>\<open>sep.join(strings)\<close>.\<close>

fun py_join :: "string \<Rightarrow> string list \<Rightarrow> string" where
  "py_join sep [] = []"
| "py_join sep [x] = x"
| "py_join sep (x # y # ys) = x @ sep @ py_join sep (y # ys)"

text \<open>
  \<open>Result.single()\<close> of the driver: None when the result has no record, else its first
  record (the driver only warns when there are more).
\<close>

definition single :: "neo_record list \<Rightarrow> neo_record option" where
  "single records = (case records of [] \<Rightarrow> None | r # _ \<Rightarrow> Some r)"

text \<open>
  \<open>record[i]\<close> for an integer index: the driver's \<open>Record.__getitem__\<close> returns None when
  the index is out of range.
\<close>

definition record_getitem :: "neo_record \<Rightarrow> nat \<Rightarrow> val" where
  "record_getitem r i = (if i < length r then snd (r ! i) else VNone)"

text \<open>
  \<open>record.value(key)\<close> for a field name: the value at the first field of that name, and
  the default None when the record has no such field.
\<close>

definition record_value :: "neo_record \<Rightarrow> string \<Rightarrow> val" where
  "record_value r key = (case map_of r key of None \<Rightarrow> VNone | Some v \<Rightarrow> v)"

text \<open>
  \<open>dict(record)\<close>: a Record is a mapping, so \<open>dict\<close> reads \<open>record.keys()\<close> and stores
  \<open>record[key]\<close> under each key. \<open>tuple(record)\<close> is the values in field order.
\<close>

definition dict_of_record :: "neo_record \<Rightarrow> pydict" where
  "dict_of_record r = py_dict (map (\<lambda>key. (key, record_value r key)) (map fst r))"

definition tuple_of_record :: "neo_record \<Rightarrow> val list" where
  "tuple_of_record r = map snd r"

text \<open>
  \<open>x.items()\<close>: the property pairs of a node and the pairs of a dictionary; any other
  value (None among them) has no such method.
\<close>

fun items_of :: "val \<Rightarrow> error + (string \<times> val) list" where
  "items_of (VNode ps) = Inr ps"
| "items_of (VMap ps) = Inr ps"
| "items_of _ = Inl AttributeError"

text \<open>
  \<open>Result.data()\<close> turns every record into a dictionary and, inside it, every node into
  the dictionary of its properties.
\<close>

fun transform :: "val \<Rightarrow> val" where
  "transform (VNode ps) = VMap (map (\<lambda>(k, v). (k, transform v)) ps)"
| "transform (VList xs) = VList (map transform xs)"
| "transform (VMap ps) = VMap (map (\<lambda>(k, v). (k, transform v)) ps)"
| "transform v = v"

definition record_data :: "neo_record \<Rightarrow> pydict" where
  "record_data r = map (\<lambda>(k, v). (k, transform v)) (py_dict r)"

section \<open>Construction, close and the session methods\<close>

text \<open>
  \<open>__init__\<close>: both fields start as None; the driver is created by
  \<open>GraphDatabase.driver\<close> (the parameter \<open>mk\<close>), and a failure there is raised again
  as an Exception with a longer message.
\<close>

definition init :: "(string \<Rightarrow> string \<Rightarrow> string \<Rightarrow> string + driver) \<Rightarrow> string \<Rightarrow> string \<Rightarrow> string \<Rightarrow> error + liaison" where
  "init mk url user pwd =
     (case mk url user pwd of
        Inl ex \<Rightarrow> Inl (Exception (''CHECK IF NEO4J IS RUNNING! While instantiating the Neo4jLiaison object, failed to create the driver: '' @ ex))
      | Inr d \<Rightarrow> Inr \<lparr>p_driver = Some d, p_current_session = None\<rparr>)"

definition close :: "system \<Rightarrow> unit outcome" where
  "close st =
     (case p_driver (self st) of
        None \<Rightarrow> (Inr (), st)
      | Some d \<Rightarrow>
          (let st' = st\<lparr>calls := calls st @ [CallClose]\<rparr> in
           case d_close d (calls st) of
             Some msg \<Rightarrow> (Inl (DriverError msg), st')
           | None \<Rightarrow> (Inr (), st')))"

definition new_session :: "system \<Rightarrow> session outcome" where
  "new_session st =
     (case p_driver (self st) of
        None \<Rightarrow> (Inl (Exception ''Calling the session() method, but self._driver isn't set''), st)
      | Some d \<Rightarrow>
          (let st' = st\<lparr>calls := calls st @ [CallSession]\<rparr> in
           case d_session d (calls st) of
             Inl msg \<Rightarrow> (Inl (DriverError msg), st')
           | Inr s \<Rightarrow> (Inr s, st'\<lparr>self := (self st')\<lparr>p_current_session := Some s\<rparr>\<rparr>)))"

definition get_session :: "system \<Rightarrow> session outcome" where
  "get_session st =
     (case p_current_session (self st) of
        Some s \<Rightarrow> (Inr s, st)
      | None \<Rightarrow> new_session st)"

section \<open>Methods to retrieve data\<close>

text \<open>
  Every method below first asks \<open>get_session\<close> for the session, builds the Cypher text
  by substituting its string arguments into a template, and calls \<open>run\<close> on the session
  with the text and a dictionary of parameters. Printing is left out.
\<close>

definition retrieve_node_by_label_and_id :: "string \<Rightarrow> int \<Rightarrow> system \<Rightarrow> (pydict option) outcome" where
  "retrieve_node_by_label_and_id label id_value st =
     (case get_session st of
        (Inl e, st1) \<Rightarrow> (Inl e, st1)
      | (Inr sess, st1) \<Rightarrow>
          (let cypher = ''MATCH (n:'' @ label @ '' {id:$id}) RETURN n'' in
           case session_run sess cypher [(''id'', VInt id_value)] st1 of
             (Inl e, st2) \<Rightarrow> (Inl e, st2)
           | (Inr result_obj, st2) \<Rightarrow>
               (case single result_obj of
                  None \<Rightarrow> (Inr None, st2)
                | Some record \<Rightarrow>
                    (case items_of (record_getitem record 0) of
                       Inl e \<Rightarrow> (Inl e, st2)
                     | Inr node_as_items \<Rightarrow> (Inr (Some (py_dict node_as_items)), st2)))))"

text \<open>The loop of \<open>retrieve_node_by_label_and_clause\<close> over the records of the result.\<close>

fun nodes_to_dicts :: "neo_record list \<Rightarrow> pydict list \<Rightarrow> error + pydict list" where
  "nodes_to_dicts [] result_list = Inr result_list"
| "nodes_to_dicts (record # rest) result_list =
     (case items_of (record_getitem record 0) of
        Inl e \<Rightarrow> Inl e
      | Inr node_as_items \<Rightarrow> nodes_to_dicts rest (result_list @ [py_dict node_as_items]))"

definition retrieve_node_by_label_and_clause :: "string \<Rightarrow> string \<Rightarrow> system \<Rightarrow> (pydict list) outcome" where
  "retrieve_node_by_label_and_clause label clause st =
     (case get_session st of
        (Inl e, st1) \<Rightarrow> (Inl e, st1)
      | (Inr sess, st1) \<Rightarrow>
          (let cypher = ''MATCH (n:'' @ label @ '') WHERE '' @ clause @ '' RETURN n'' in
           case session_run sess cypher [] st1 of
             (Inl e, st2) \<Rightarrow> (Inl e, st2)
           | (Inr result_obj, st2) \<Rightarrow>
               (case nodes_to_dicts result_obj [] of
                  Inl e \<Rightarrow> (Inl e, st2)
                | Inr result_list \<Rightarrow> (Inr result_list, st2))))"

text \<open>\<open>[i["m"] for i in result_as_list_dict]\<close>: a dictionary without the key ends the method.\<close>

fun children_of :: "pydict list \<Rightarrow> error + val list" where
  "children_of [] = Inr []"
| "children_of (i # rest) =
     (case map_of i ''m'' of
        None \<Rightarrow> Inl (KeyError ''m'')
      | Some v \<Rightarrow> (case children_of rest of Inl e \<Rightarrow> Inl e | Inr vs \<Rightarrow> Inr (v # vs)))"

definition retrieve_children :: "string \<Rightarrow> val \<Rightarrow> string \<Rightarrow> system \<Rightarrow> (val list) outcome" where
  "retrieve_children label id_value rel_name st =
     (case get_session st of
        (Inl e, st1) \<Rightarrow> (Inl e, st1)
      | (Inr sess, st1) \<Rightarrow>
          (let cypher = ''MATCH (n:'' @ label @ '' {id:$id})-[:'' @ rel_name @ '']->(m) RETURN m'' in
           case session_run sess cypher [(''id'', id_value), (''rel_name'', VStr rel_name)] st1 of
             (Inl e, st2) \<Rightarrow> (Inl e, st2)
           | (Inr result_obj, st2) \<Rightarrow>
               (case children_of (map record_data result_obj) of
                  Inl e \<Rightarrow> (Inl e, st2)
                | Inr children \<Rightarrow> (Inr children, st2))))"

definition query_list_single_field :: "string \<Rightarrow> string \<Rightarrow> pydict option \<Rightarrow> system \<Rightarrow> (val list) outcome" where
  "query_list_single_field field_name cypher cypher_dict st =
     (let cypher_dict' = (case cypher_dict of None \<Rightarrow> [] | Some d \<Rightarrow> d) in
      case get_session st of
        (Inl e, st1) \<Rightarrow> (Inl e, st1)
      | (Inr sess, st1) \<Rightarrow>
          (case session_run sess cypher cypher_dict' st1 of
             (Inl e, st2) \<Rightarrow> (Inl e, st2)
           | (Inr result_obj, st2) \<Rightarrow>
               (Inr (map (\<lambda>record. record_value record field_name) result_obj), st2)))"

definition query_list_multiple_fields_dict :: "string \<Rightarrow> pydict option \<Rightarrow> system \<Rightarrow> (pydict list) outcome" where
  "query_list_multiple_fields_dict cypher cypher_dict st =
     (let cypher_dict' = (case cypher_dict of None \<Rightarrow> [] | Some d \<Rightarrow> d) in
      case get_session st of
        (Inl e, st1) \<Rightarrow> (Inl e, st1)
      | (Inr sess, st1) \<Rightarrow>
          (case session_run sess cypher cypher_dict' st1 of
             (Inl e, st2) \<Rightarrow> (Inl e, st2)
           | (Inr result_obj, st2) \<Rightarrow> (Inr (map dict_of_record result_obj), st2)))"

definition query_list_multiple_fields :: "string \<Rightarrow> pydict option \<Rightarrow> system \<Rightarrow> (val list list) outcome" where
  "query_list_multiple_fields cypher cypher_dict st =
     (let cypher_dict' = (case cypher_dict of None \<Rightarrow> [] | Some d \<Rightarrow> d) in
      case get_session st of
        (Inl e, st1) \<Rightarrow> (Inl e, st1)
      | (Inr sess, st1) \<Rightarrow>
          (case session_run sess cypher cypher_dict' st1 of
             (Inl e, st2) \<Rightarrow> (Inl e, st2)
           | (Inr result_obj, st2) \<Rightarrow> (Inr (map tuple_of_record result_obj), st2)))"

text \<open>
  \<open>next_available_id\<close>: \<open>result_list[0]\<close> raises IndexError on an empty list; a None
  there is answered by 1.
\<close>

definition next_available_id :: "string \<Rightarrow> string \<Rightarrow> system \<Rightarrow> val outcome" where
  "next_available_id label clause st =
     (let cypher =
        (if clause = [] then ''MATCH (n:'' @ label @ '') RETURN 1+max(n.id) AS max_value''
         else ''MATCH (n:'' @ label @ '' {'' @ clause @ ''}) RETURN 1+max(n.id) AS max_value'') in
      case query_list_single_field ''max_value'' cypher None st of
        (Inl e, st1) \<Rightarrow> (Inl e, st1)
      | (Inr result_list, st1) \<Rightarrow>
          (case result_list of
             [] \<Rightarrow> (Inl IndexError, st1)
           | result # _ \<Rightarrow> (if result = VNone then (Inr (VInt 1), st1) else (Inr result, st1))))"

section \<open>Methods to modify data and to run generic queries\<close>

definition run_query :: "string \<Rightarrow> pydict option \<Rightarrow> system \<Rightarrow> (neo_record list) outcome" where
  "run_query cypher cypher_dict st =
     (case get_session st of
        (Inl e, st1) \<Rightarrow> (Inl e, st1)
      | (Inr sess, st1) \<Rightarrow>
          (let cypher_dict' = (case cypher_dict of None \<Rightarrow> [] | Some d \<Rightarrow> d) in
           session_run sess cypher cypher_dict' st1))"

text \<open>
  \<open>create_node\<close>: one string \<open>key: $key\<close> for every key of \<open>items\<close>, in the dictionary's
  order, joined by a comma and a space. The result object is returned after
  \<open>result.value()\<close> has read all its records (for the printed message), so no record is
  left in it.
\<close>

definition create_node :: "string \<Rightarrow> pydict \<Rightarrow> system \<Rightarrow> (neo_record list) outcome" where
  "create_node label items st =
     (let pair_list = map (\<lambda>key. key @ '': $'' @ key) (map fst items);
          attributes_str = py_join '', '' pair_list;
          cypher = ''CREATE (:'' @ label @ '' {'' @ attributes_str @ ''})'' in
      case run_query cypher (Some items) st of
        (Inl e, st1) \<Rightarrow> (Inl e, st1)
      | (Inr result, st1) \<Rightarrow> (Inr [], st1))"

definition change_single_attribute_by_id :: "string \<Rightarrow> int \<Rightarrow> string \<Rightarrow> val \<Rightarrow> system \<Rightarrow> unit outcome" where
  "change_single_attribute_by_id label node_id attribute_name new_attribute_value st =
     (let cypher = ''MATCH (n:'' @ label @ '') WHERE n.id = $node_id SET n.'' @ attribute_name @ '' = $new_attribute_value'';
          cypher_dict = [(''node_id'', VInt node_id), (''new_attribute_value'', new_attribute_value)] in
      case run_query cypher (Some cypher_dict) st of
        (Inl e, st1) \<Rightarrow> (Inl e, st1)
      | (Inr result_obj, st1) \<Rightarrow> (Inr (), st1))"

text \<open>
  \<open>query_NOT_IN_USE\<close> asserts that the driver is set and then asks it for an attribute
  \<open>sess\<close> that a driver does not have: the AttributeError is caught inside the method,
  which returns its initial \<open>response\<close>, None, having called nothing.
\<close>

definition query_NOT_IN_USE :: "string \<Rightarrow> string option \<Rightarrow> system \<Rightarrow> (neo_record list option) outcome" where
  "query_NOT_IN_USE query db st =
     (case p_driver (self st) of
        None \<Rightarrow> (Inl (AssertionError ''Driver not initialized!''), st)
      | Some d \<Rightarrow> (Inr None, st))"

section \<open>Sequences of method calls\<close>

text \<open>
  A call of one of the methods of the class with its arguments, and the state of the
  object and of the trace after the call, whether the method returned or raised.
\<close>

datatype method_call =
    Close
  | NewSession
  | GetSession
  | RetrieveNodeByLabelAndId string int
  | RetrieveNodeByLabelAndClause string string
  | RetrieveChildren string val string
  | QueryListSingleField string string "pydict option"
  | QueryListMultipleFieldsDict string "pydict option"
  | QueryListMultipleFields string "pydict option"
  | NextAvailableId string string
  | CreateNode string pydict
  | ChangeSingleAttributeById string int string val
  | RunQuery string "pydict option"
  | QueryNotInUse string "string option"

fun invoke :: "method_call \<Rightarrow> system \<Rightarrow> system" where
  "invoke Close st = snd (close st)"
| "invoke NewSession st = snd (new_session st)"
| "invoke GetSession st = snd (get_session st)"
| "invoke (RetrieveNodeByLabelAndId label id_value) st =
     snd (retrieve_node_by_label_and_id label id_value st)"
| "invoke (RetrieveNodeByLabelAndClause label clause) st =
     snd (retrieve_node_by_label_and_clause label clause st)"
| "invoke (RetrieveChildren label id_value rel_name) st =
     snd (retrieve_children label id_value rel_name st)"
| "invoke (QueryListSingleField field_name cypher cypher_dict) st =
     snd (query_list_single_field field_name cypher cypher_dict st)"
| "invoke (QueryListMultipleFieldsDict cypher cypher_dict) st =
     snd (query_list_multiple_fields_dict cypher cypher_dict st)"
| "invoke (QueryListMultipleFields cypher cypher_dict) st =
     snd (query_list_multiple_fields cypher cypher_dict st)"
| "invoke (NextAvailableId label clause) st = snd (next_available_id label clause st)"
| "invoke (CreateNode label items) st = snd (create_node label items st)"
| "invoke (ChangeSingleAttributeById label node_id attribute_name new_attribute_value) st =
     snd (change_single_attribute_by_id label node_id attribute_name new_attribute_value st)"
| "invoke (RunQuery cypher cypher_dict) st = snd (run_query cypher cypher_dict st)"
| "invoke (QueryNotInUse query db) st = snd (query_NOT_IN_USE query db st)"

definition invoke_all :: "method_call list \<Rightarrow> system \<Rightarrow> system" where
  "invoke_all ms st = foldl (\<lambda>st m. invoke m st) st ms"

text \<open>The data operations: the methods that send a Cypher query to the session.\<close>

fun data_operation :: "method_call \<Rightarrow> bool" where
  "data_operation Close = False"
| "data_operation NewSession = False"
| "data_operation GetSession = False"
| "data_operation (QueryNotInUse query db) = False"
| "data_operation _ = True"

section \<open>A driver to run the methods on\<close>

text \<open>
  A driver that never raises: every session it creates is numbered by the number of calls
  made before, and answers every query with the same records.
\<close>

definition example_driver :: "neo_record list \<Rightarrow> driver" where
  "example_driver records =
     \<lparr>d_close = (\<lambda>tr. None),
      d_session = (\<lambda>tr. Inr \<lparr>sid = length tr, s_run = (\<lambda>tr' cypher ps. Inr records)\<rparr>)\<rparr>"

definition example_system :: "neo_record list \<Rightarrow> system" where
  "example_system records =
     \<lparr>self = \<lparr>p_driver = Some (example_driver records), p_current_session = None\<rparr>, calls = []\<rparr>"

section \<open>Facts about dictionaries and records\<close>

lemma dict_set_keys: "fst ` set (dict_set d k v) = insert k (fst ` set d)"
  by (induction d k v rule: dict_set.induct) auto

lemma dict_set_fresh: "k \<notin> fst ` set d \<Longrightarrow> dict_set d k v = d @ [(k, v)]"
  by (induction d k v rule: dict_set.induct) auto

lemma dict_set_distinct: "distinct (map fst d) \<Longrightarrow> distinct (map fst (dict_set d k v))"
proof (induction d k v rule: dict_set.induct)
  case (1 k v)
  then show ?case by simp
next
  case (2 k' v' d k v)
  then show ?case using dict_set_keys [of d k v] by (auto simp: image_iff)
qed

lemma map_of_dict_set: "map_of (dict_set d k v) = (map_of d)(k \<mapsto> v)"
  by (induction d k v rule: dict_set.induct) (auto simp: fun_eq_iff)

lemma foldl_dict_set_distinct:
  "distinct (map fst (d @ pairs)) \<Longrightarrow> foldl (\<lambda>d (k, v). dict_set d k v) d pairs = d @ pairs"
proof (induction pairs arbitrary: d)
  case Nil
  then show ?case by simp
next
  case (Cons p pairs)
  obtain k v where p: "p = (k, v)" by (cases p)
  from Cons.prems p have fresh: "k \<notin> fst ` set d" by auto
  from Cons.prems p have "distinct (map fst ((d @ [(k, v)]) @ pairs))" by auto
  from Cons.IH [OF this] show ?case
    by (simp add: p dict_set_fresh [OF fresh])
qed

lemma py_dict_distinct: "distinct (map fst pairs) \<Longrightarrow> py_dict pairs = pairs"
  using foldl_dict_set_distinct [of "[]" pairs] by (simp add: py_dict_def)

lemma foldl_dict_set_keys:
  "fst ` set (foldl (\<lambda>d (k, v). dict_set d k v) d pairs) = fst ` set d \<union> fst ` set pairs"
proof (induction pairs arbitrary: d)
  case Nil
  then show ?case by simp
next
  case (Cons p pairs)
  obtain k v where p: "p = (k, v)" by (cases p)
  show ?case
    by (simp add: p Cons.IH dict_set_keys)
qed

lemma foldl_dict_set_keys_distinct:
  "distinct (map fst d) \<Longrightarrow> distinct (map fst (foldl (\<lambda>d (k, v). dict_set d k v) d pairs))"
  by (induction pairs arbitrary: d) (auto simp: dict_set_distinct split: prod.splits)

lemma foldl_dict_set_map_of:
  "map_of (foldl (\<lambda>d (k, v). dict_set d k v) d pairs) = map_of d ++ map_of (rev pairs)"
  by (induction pairs arbitrary: d) (auto simp: map_of_dict_set split: prod.splits)

lemma py_dict_keys: "fst ` set (py_dict pairs) = fst ` set pairs"
  by (simp add: py_dict_def foldl_dict_set_keys)

lemma py_dict_keys_distinct: "distinct (map fst (py_dict pairs))"
  by (simp add: py_dict_def foldl_dict_set_keys_distinct)

lemma py_dict_map_of: "map_of (py_dict pairs) = map_of (rev pairs)"
  by (simp add: py_dict_def foldl_dict_set_map_of)

lemma dict_of_record_keys: "fst ` set (dict_of_record r) = fst ` set r"
  by (simp add: dict_of_record_def py_dict_keys image_image)

lemma dict_of_record_map_of: "map_of (dict_of_record r) = map_of r"
proof
  fix k
  show "map_of (dict_of_record r) k = map_of r k"
  proof (cases "map_of r k")
    case None
    then have "k \<notin> fst ` set r" by (simp add: map_of_eq_None_iff)
    then have "k \<notin> fst ` set (dict_of_record r)" by (simp add: dict_of_record_keys)
    then have "map_of (dict_of_record r) k = None" by (simp add: map_of_eq_None_iff)
    with None show ?thesis by simp
  next
    case (Some v)
    have "map_of (dict_of_record r) k =
        map_of (map (\<lambda>key. (key, record_value r key)) (rev (map fst r))) k"
      by (simp add: dict_of_record_def py_dict_map_of rev_map)
    also have "\<dots> = ((Some \<circ> record_value r) |` set (rev (map fst r))) k"
      by (simp only: map_of_map_restrict)
    also have "\<dots> = Some (record_value r k)"
    proof -
      from Some have "(k, v) \<in> set r" by (rule map_of_SomeD)
      then have "k \<in> fst ` set r" by force
      then show ?thesis by (simp add: restrict_map_def)
    qed
    finally show ?thesis using Some by (simp add: record_value_def)
  qed
qed

section \<open>Facts about the session\<close>

lemma get_session_stored:
  "p_current_session (self st) = Some s \<Longrightarrow> get_session st = (Inr s, st)"
  by (simp add: get_session_def)

lemma example_get_session:
  "get_session (example_system records) =
     (Inr \<lparr>sid = 0, s_run = (\<lambda>tr' cypher ps. Inr records)\<rparr>,
      \<lparr>self = \<lparr>p_driver = Some (example_driver records),
                p_current_session = Some \<lparr>sid = 0, s_run = (\<lambda>tr' cypher ps. Inr records)\<rparr>\<rparr>,
       calls = [CallSession]\<rparr>)"
  by (simp add: get_session_def new_session_def example_system_def example_driver_def)

section \<open>The claims\<close>

text \<open>
  C1. Every method that builds a query substitutes its label, clause, relationship-name and
  attribute-name arguments into the text of the Cypher query, and hands the data values to
  the session as parameters, separately from the text. Once the session is there, the one
  call that \<open>retrieve_node_by_label_and_id\<close> makes is \<open>run\<close> with the text
  \<open>MATCH (n:<label> {id:$id}) RETURN n\<close> and \<open>id_value\<close> bound to the name \<open>id\<close>;
  \<open>change_single_attribute_by_id\<close> puts the label and the attribute name into the text and
  binds \<open>node_id\<close> and \<open>new_attribute_value\<close>; \<open>create_node\<close> puts the label and one
  \<open>key: $key\<close> per key of \<open>items\<close>, in the dictionary's order, into the text and binds
  \<open>items\<close> itself, so every value under its own name. The same holds of
  \<open>retrieve_node_by_label_and_clause\<close>, \<open>retrieve_children\<close> and \<open>next_available_id\<close>.
\<close>

theorem query_construction:
  assumes "get_session st = (Inr sess, st1)"
  shows "calls (snd (retrieve_node_by_label_and_id label id_value st)) =
           calls st1 @ [CallRun (sid sess) (''MATCH (n:'' @ label @ '' {id:$id}) RETURN n'')
                          [(''id'', VInt id_value)]]
       \<and> calls (snd (change_single_attribute_by_id label node_id attribute_name new_attribute_value st)) =
           calls st1 @ [CallRun (sid sess)
                          (''MATCH (n:'' @ label @ '') WHERE n.id = $node_id SET n.'' @ attribute_name
                             @ '' = $new_attribute_value'')
                          [(''node_id'', VInt node_id), (''new_attribute_value'', new_attribute_value)]]
       \<and> calls (snd (create_node label items st)) =
           calls st1 @ [CallRun (sid sess)
                          (''CREATE (:'' @ label @ '' {''
                             @ py_join '', '' (map (\<lambda>key. key @ '': $'' @ key) (map fst items)) @ ''})'')
                          items]
       \<and> calls (snd (retrieve_node_by_label_and_clause label clause st)) =
           calls st1 @ [CallRun (sid sess) (''MATCH (n:'' @ label @ '') WHERE '' @ clause @ '' RETURN n'') []]
       \<and> calls (snd (retrieve_children label id_val rel_name st)) =
           calls st1 @ [CallRun (sid sess)
                          (''MATCH (n:'' @ label @ '' {id:$id})-[:'' @ rel_name @ '']->(m) RETURN m'')
                          [(''id'', id_val), (''rel_name'', VStr rel_name)]]
       \<and> calls (snd (next_available_id label [] st)) =
           calls st1 @ [CallRun (sid sess) (''MATCH (n:'' @ label @ '') RETURN 1+max(n.id) AS max_value'') []]
       \<and> (clause \<noteq> [] \<longrightarrow> calls (snd (next_available_id label clause st)) =
           calls st1 @ [CallRun (sid sess)
                          (''MATCH (n:'' @ label @ '' {'' @ clause @ ''}) RETURN 1+max(n.id) AS max_value'') []])"
proof -
  have a: "calls (snd (retrieve_node_by_label_and_id label id_value st)) =
           calls st1 @ [CallRun (sid sess) (''MATCH (n:'' @ label @ '' {id:$id}) RETURN n'')
                          [(''id'', VInt id_value)]]"
    using assms
    by (simp add: retrieve_node_by_label_and_id_def session_run_def Let_def
        split: sum.splits option.splits)
  have b: "calls (snd (change_single_attribute_by_id label node_id attribute_name new_attribute_value st)) =
           calls st1 @ [CallRun (sid sess)
                          (''MATCH (n:'' @ label @ '') WHERE n.id = $node_id SET n.'' @ attribute_name
                             @ '' = $new_attribute_value'')
                          [(''node_id'', VInt node_id), (''new_attribute_value'', new_attribute_value)]]"
    using assms
    by (simp add: change_single_attribute_by_id_def run_query_def session_run_def Let_def
        split: sum.splits)
  have c: "calls (snd (create_node label items st)) =
           calls st1 @ [CallRun (sid sess)
                          (''CREATE (:'' @ label @ '' {''
                             @ py_join '', '' (map (\<lambda>key. key @ '': $'' @ key) (map fst items)) @ ''})'')
                          items]"
    using assms
    by (simp add: create_node_def run_query_def session_run_def Let_def
        split: sum.splits)
  have d: "calls (snd (retrieve_node_by_label_and_clause label clause st)) =
           calls st1 @ [CallRun (sid sess) (''MATCH (n:'' @ label @ '') WHERE '' @ clause @ '' RETURN n'') []]"
    using assms
    by (simp add: retrieve_node_by_label_and_clause_def session_run_def Let_def
        split: sum.splits)
  have e: "calls (snd (retrieve_children label id_val rel_name st)) =
           calls st1 @ [CallRun (sid sess)
                          (''MATCH (n:'' @ label @ '' {id:$id})-[:'' @ rel_name @ '']->(m) RETURN m'')
                          [(''id'', id_val), (''rel_name'', VStr rel_name)]]"
    using assms
    by (simp add: retrieve_children_def session_run_def Let_def split: sum.splits)
  have f: "calls (snd (next_available_id label clause st)) =
           calls st1 @ [CallRun (sid sess)
             (if clause = [] then ''MATCH (n:'' @ label @ '') RETURN 1+max(n.id) AS max_value''
              else ''MATCH (n:'' @ label @ '' {'' @ clause @ ''}) RETURN 1+max(n.id) AS max_value'') []]"
    for clause
    using assms
    by (simp add: next_available_id_def query_list_single_field_def session_run_def Let_def
        split: sum.splits list.splits)
  from a b c d e f [of "[]"] f [of clause] show ?thesis by simp
qed

theorem query_construction_witness:
  "get_session (example_system []) =
     (Inr \<lparr>sid = 0, s_run = (\<lambda>tr' cypher ps. Inr [])\<rparr>,
      \<lparr>self = \<lparr>p_driver = Some (example_driver []),
                p_current_session = Some \<lparr>sid = 0, s_run = (\<lambda>tr' cypher ps. Inr [])\<rparr>\<rparr>,
       calls = [CallSession]\<rparr>)
   \<and> calls (snd (retrieve_node_by_label_and_id ''OC_subject'' 86 (example_system []))) =
       [CallSession, CallRun 0 ''MATCH (n:OC_subject {id:$id}) RETURN n'' [(''id'', VInt 86)]]
   \<and> calls (snd (change_single_attribute_by_id ''OC_subject'' 86 ''gender'' (VStr ''F'') (example_system []))) =
       [CallSession,
        CallRun 0 ''MATCH (n:OC_subject) WHERE n.id = $node_id SET n.gender = $new_attribute_value''
          [(''node_id'', VInt 86), (''new_attribute_value'', VStr ''F'')]]
   \<and> calls (snd (create_node ''OC_subject'' [(''id'', VInt 123), (''gender'', VStr ''M'')] (example_system []))) =
       [CallSession,
        CallRun 0 ''CREATE (:OC_subject {id: $id, gender: $gender})''
          [(''id'', VInt 123), (''gender'', VStr ''M'')]]
   \<and> calls (snd (retrieve_node_by_label_and_clause ''OC_subject'' ''n.ht > 70'' (example_system []))) =
       [CallSession, CallRun 0 ''MATCH (n:OC_subject) WHERE n.ht > 70 RETURN n'' []]
   \<and> calls (snd (retrieve_children ''OC_subject'' (VInt 86) ''HAS'' (example_system []))) =
       [CallSession,
        CallRun 0 ''MATCH (n:OC_subject {id:$id})-[:HAS]->(m) RETURN m''
          [(''id'', VInt 86), (''rel_name'', VStr ''HAS'')]]
   \<and> calls (snd (next_available_id ''OC_subject'' [] (example_system []))) =
       [CallSession, CallRun 0 ''MATCH (n:OC_subject) RETURN 1+max(n.id) AS max_value'' []]
   \<and> calls (snd (next_available_id ''OC_subject'' ''type:1'' (example_system []))) =
       [CallSession, CallRun 0 ''MATCH (n:OC_subject {type:1}) RETURN 1+max(n.id) AS max_value'' []]"
  using query_construction [where st = "example_system []" and label = "''OC_subject''"
      and id_value = 86 and node_id = 86 and attribute_name = "''gender''"
      and new_attribute_value = "VStr ''F''" and items = "[(''id'', VInt 123), (''gender'', VStr ''M'')]"
      and clause = "''n.ht > 70''" and id_val = "VInt 86" and rel_name = "''HAS''",
      OF example_get_session]
    query_construction [where st = "example_system []" and label = "''OC_subject''"
      and clause = "''type:1''", OF example_get_session]
    example_get_session [of "[]"]
  by simp

text \<open>
  C10. \<open>next_available_id\<close> takes element 0 of the list that \<open>query_list_single_field\<close>
  returns without looking at its length. When the aggregate query gives at least one
  record (its value may be None), the method returns a value: the first record's
  \<open>max_value\<close>, or 1 when that is None. When the query gives no record, the method
  raises IndexError.
\<close>

theorem next_available_id_index:
  assumes "get_session st = (Inr sess, st1)"
    and "s_run sess (calls st1)
           (if clause = [] then ''MATCH (n:'' @ label @ '') RETURN 1+max(n.id) AS max_value''
            else ''MATCH (n:'' @ label @ '' {'' @ clause @ ''}) RETURN 1+max(n.id) AS max_value'') []
         = Inr records"
  shows "(records = [] \<longrightarrow> fst (next_available_id label clause st) = Inl IndexError)
       \<and> (\<forall>r rest. records = r # rest \<longrightarrow>
            fst (next_available_id label clause st) =
              Inr (if record_value r ''max_value'' = VNone then VInt 1
                   else record_value r ''max_value''))"
  using assms
  by (auto simp add: next_available_id_def query_list_single_field_def session_run_def Let_def
      split: if_splits)

theorem next_available_id_index_witness:
  "fst (next_available_id ''OC_subject'' [] (example_system [])) = Inl IndexError
   \<and> fst (next_available_id ''OC_subject'' [] (example_system [[(''max_value'', VNone)]])) =
       Inr (VInt 1)
   \<and> fst (next_available_id ''OC_subject'' [] (example_system [[(''max_value'', VInt 7)], []])) =
       Inr (VInt 7)"
  using next_available_id_index [where st = "example_system []"
      and label = "''OC_subject''" and clause = "[]" and records = "[]",
      OF example_get_session]
    next_available_id_index [where st = "example_system [[(''max_value'', VNone)]]"
      and label = "''OC_subject''" and clause = "[]" and records = "[[(''max_value'', VNone)]]",
      OF example_get_session]
    next_available_id_index [where st = "example_system [[(''max_value'', VInt 7)], []]"
      and label = "''OC_subject''" and clause = "[]" and records = "[[(''max_value'', VInt 7)], []]",
      OF example_get_session]
  by (simp add: record_value_def)

text \<open>
  C3. For every label and \<open>id_value\<close>, \<open>retrieve_node_by_label_and_id\<close> returns None
  when the lookup query finds no node, and otherwise a dictionary that holds exactly the
  attribute names of the (first) node found, each with the node's value for it. Here
  \<open>matched\<close> are the property dictionaries of the nodes that the records of the result
  carry in their field 0.
\<close>

theorem retrieve_node_by_label_and_id_result:
  assumes "get_session st = (Inr sess, st1)"
    and "s_run sess (calls st1) (''MATCH (n:'' @ label @ '' {id:$id}) RETURN n'')
           [(''id'', VInt id_value)] = Inr records"
    and "map (\<lambda>r. record_getitem r 0) records = map VNode matched"
    and "\<forall>ps \<in> set matched. distinct (map fst ps)"
  shows "fst (retrieve_node_by_label_and_id label id_value st) =
           Inr (case matched of [] \<Rightarrow> None | ps # _ \<Rightarrow> Some ps)"
proof (cases matched)
  case Nil
  with assms(3) have "records = []" by simp
  with assms(1,2) Nil show ?thesis
    by (simp add: retrieve_node_by_label_and_id_def session_run_def single_def)
next
  case (Cons ps rest)
  with assms(3) obtain r rs where r: "records = r # rs" "record_getitem r 0 = VNode ps"
    by (cases records) auto
  from assms(4) Cons have "py_dict ps = ps" by (simp add: py_dict_distinct)
  with assms(1,2) r Cons show ?thesis
    by (simp add: retrieve_node_by_label_and_id_def session_run_def single_def)
qed

theorem retrieve_node_by_label_and_id_result_witness:
  "fst (retrieve_node_by_label_and_id ''OC_subject'' 110
          (example_system [[(''n'', VNode [(''id'', VInt 110), (''gender'', VStr ''M'')])]])) =
     Inr (Some [(''id'', VInt 110), (''gender'', VStr ''M'')])
   \<and> fst (retrieve_node_by_label_and_id ''OC_subject'' 110 (example_system [])) = Inr None"
  using retrieve_node_by_label_and_id_result
      [where st = "example_system [[(''n'', VNode [(''id'', VInt 110), (''gender'', VStr ''M'')])]]"
        and label = "''OC_subject''" and id_value = 110
        and records = "[[(''n'', VNode [(''id'', VInt 110), (''gender'', VStr ''M'')])]]"
        and matched = "[[(''id'', VInt 110), (''gender'', VStr ''M'')]]",
        OF example_get_session]
    retrieve_node_by_label_and_id_result
      [where st = "example_system []" and label = "''OC_subject''" and id_value = 110
        and records = "[]" and matched = "[]", OF example_get_session]
  by (simp add: record_getitem_def)


lemma nodes_to_dicts_nodes:
  "map (\<lambda>r. record_getitem r 0) records = map VNode nodes \<Longrightarrow>
   nodes_to_dicts records result_list = Inr (result_list @ map py_dict nodes)"
proof (induction records arbitrary: nodes result_list)
  case Nil
  then show ?case by simp
next
  case (Cons r records)
  then obtain ps rest where nodes: "nodes = ps # rest" "record_getitem r 0 = VNode ps"
      "map (\<lambda>r. record_getitem r 0) records = map VNode rest"
    by (cases nodes) auto
  from Cons.IH [OF nodes(3)] nodes(1,2) show ?case by simp
qed

lemma map_py_dict_distinct:
  "\<forall>ps \<in> set nodes. distinct (map fst ps) \<Longrightarrow> map py_dict nodes = nodes"
  by (induction nodes) (simp_all add: py_dict_distinct)

lemma record_value_nth:
  assumes "distinct (map fst r)" and "i < length r"
  shows "record_value r (fst (r ! i)) = snd (r ! i)"
proof -
  from assms(2) have "(fst (r ! i), snd (r ! i)) \<in> set r" by simp
  with assms(1) have "map_of r (fst (r ! i)) = Some (snd (r ! i))" by simp
  then show ?thesis by (simp add: record_value_def)
qed

lemma dict_of_record_distinct:
  assumes "distinct (map fst r)"
  shows "dict_of_record r = r"
proof -
  have "map (\<lambda>key. (key, record_value r key)) (map fst r) = r"
    using assms by (intro nth_equalityI) (simp_all add: record_value_nth)
  moreover have "distinct (map fst (map (\<lambda>key. (key, record_value r key)) (map fst r)))"
    using assms by (simp add: comp_def)
  ultimately show ?thesis
    using py_dict_distinct [of "map (\<lambda>key. (key, record_value r key)) (map fst r)"]
    by (simp add: dict_of_record_def)
qed

text \<open>
  C4. When the driver returns the records of the query,
  \<open>retrieve_node_by_label_and_clause\<close> returns, in the order of the records, the property
  dictionary of the node of each record, and \<open>query_list_multiple_fields_dict\<close> returns one
  dictionary per record, in the same order, whose keys are the record's field names, each
  with the record's value for it (the record itself, as a dictionary, when its field names
  are distinct). No record gives the empty list.
\<close>

theorem reshape_to_dictionaries:
  assumes "get_session st = (Inr sess, st1)"
  shows "(s_run sess (calls st1) (''MATCH (n:'' @ label @ '') WHERE '' @ clause @ '' RETURN n'') []
            = Inr records
          \<and> map (\<lambda>r. record_getitem r 0) records = map VNode nodes
          \<and> (\<forall>ps \<in> set nodes. distinct (map fst ps))
          \<longrightarrow> fst (retrieve_node_by_label_and_clause label clause st) = Inr nodes)
       \<and> (s_run sess (calls st1) cypher (case cypher_dict of None \<Rightarrow> [] | Some d \<Rightarrow> d) = Inr rows
          \<longrightarrow> (\<exists>result_list.
                 fst (query_list_multiple_fields_dict cypher cypher_dict st) = Inr result_list
               \<and> length result_list = length rows
               \<and> (\<forall>i < length rows.
                     fst ` set (result_list ! i) = fst ` set (rows ! i)
                   \<and> distinct (map fst (result_list ! i))
                   \<and> map_of (result_list ! i) = map_of (rows ! i)
                   \<and> (distinct (map fst (rows ! i)) \<longrightarrow> result_list ! i = rows ! i))))"
proof (intro conjI impI)
  assume a: "s_run sess (calls st1) (''MATCH (n:'' @ label @ '') WHERE '' @ clause @ '' RETURN n'') []
            = Inr records
          \<and> map (\<lambda>r. record_getitem r 0) records = map VNode nodes
          \<and> (\<forall>ps \<in> set nodes. distinct (map fst ps))"
  then have "nodes_to_dicts records [] = Inr nodes"
    using nodes_to_dicts_nodes [of records nodes "[]"] map_py_dict_distinct [of nodes] by simp
  with a assms show "fst (retrieve_node_by_label_and_clause label clause st) = Inr nodes"
    by (simp add: retrieve_node_by_label_and_clause_def session_run_def)
next
  assume b: "s_run sess (calls st1) cypher (case cypher_dict of None \<Rightarrow> [] | Some d \<Rightarrow> d) = Inr rows"
  with assms have res: "fst (query_list_multiple_fields_dict cypher cypher_dict st) =
      Inr (map dict_of_record rows)"
    by (simp add: query_list_multiple_fields_dict_def session_run_def)
  have "\<forall>i < length rows.
          fst ` set (map dict_of_record rows ! i) = fst ` set (rows ! i)
        \<and> distinct (map fst (map dict_of_record rows ! i))
        \<and> map_of (map dict_of_record rows ! i) = map_of (rows ! i)
        \<and> (distinct (map fst (rows ! i)) \<longrightarrow> map dict_of_record rows ! i = rows ! i)"
    by (simp add: dict_of_record_keys dict_of_record_map_of dict_of_record_distinct)
       (simp add: dict_of_record_def py_dict_keys_distinct)
  with res show "\<exists>result_list.
                 fst (query_list_multiple_fields_dict cypher cypher_dict st) = Inr result_list
               \<and> length result_list = length rows
               \<and> (\<forall>i < length rows.
                     fst ` set (result_list ! i) = fst ` set (rows ! i)
                   \<and> distinct (map fst (result_list ! i))
                   \<and> map_of (result_list ! i) = map_of (rows ! i)
                   \<and> (distinct (map fst (rows ! i)) \<longrightarrow> result_list ! i = rows ! i))"
    by (intro exI [of _ "map dict_of_record rows"]) simp
qed


theorem reshape_to_dictionaries_witness:
  "fst (retrieve_node_by_label_and_clause ''OC_subject'' ''n.ht > 70''
          (example_system [[(''n'', VNode [(''gender'', VStr ''M''), (''id'', VInt 49)])],
                           [(''n'', VNode [(''id'', VInt 7)])]])) =
     Inr [[(''gender'', VStr ''M''), (''id'', VInt 49)], [(''id'', VInt 7)]]
   \<and> fst (retrieve_node_by_label_and_clause ''OC_subject'' ''n.ht > 70'' (example_system [])) = Inr []
   \<and> fst (query_list_multiple_fields_dict ''MATCH (n) RETURN n.a AS cls, n.b AS sub'' None
          (example_system [[(''cls'', VStr ''x''), (''sub'', VInt 1)]])) =
     Inr [[(''cls'', VStr ''x''), (''sub'', VInt 1)]]
   \<and> fst (query_list_multiple_fields_dict ''MATCH (n) RETURN n.a AS cls, n.b AS sub'' None
          (example_system [])) = Inr []"
proof -
  let ?recs = "[[(''n'', VNode [(''gender'', VStr ''M''), (''id'', VInt 49)])],
                [(''n'', VNode [(''id'', VInt 7)])]]"
  let ?rows = "[[(''cls'', VStr ''x''), (''sub'', VInt 1)]]"
  let ?q = "''MATCH (n) RETURN n.a AS cls, n.b AS sub''"
  have a: "fst (retrieve_node_by_label_and_clause ''OC_subject'' ''n.ht > 70'' (example_system ?recs)) =
     Inr [[(''gender'', VStr ''M''), (''id'', VInt 49)], [(''id'', VInt 7)]]"
    using reshape_to_dictionaries [where st = "example_system ?recs" and label = "''OC_subject''"
        and clause = "''n.ht > 70''" and records = ?recs
        and nodes = "[[(''gender'', VStr ''M''), (''id'', VInt 49)], [(''id'', VInt 7)]]",
        OF example_get_session]
    by (simp add: record_getitem_def)
  have b: "fst (retrieve_node_by_label_and_clause ''OC_subject'' ''n.ht > 70'' (example_system [])) = Inr []"
    using reshape_to_dictionaries [where st = "example_system []" and label = "''OC_subject''"
        and clause = "''n.ht > 70''" and records = "[]" and nodes = "[]", OF example_get_session]
    by simp
  obtain ds where ds: "fst (query_list_multiple_fields_dict ?q None (example_system ?rows)) = Inr ds"
      "length ds = 1" "ds ! 0 = ?rows ! 0"
    using reshape_to_dictionaries [where st = "example_system ?rows" and cypher = ?q
        and cypher_dict = None and rows = ?rows and label = "[]" and clause = "[]"
        and records = "[]" and nodes = "[]", OF example_get_session]
    by auto
  from ds(2,3) have "ds = ?rows" by (cases ds) simp_all
  with ds(1) have c: "fst (query_list_multiple_fields_dict ?q None (example_system ?rows)) = Inr ?rows"
    by simp
  have d: "fst (query_list_multiple_fields_dict ?q None (example_system [])) = Inr []"
    using reshape_to_dictionaries [where st = "example_system []" and cypher = ?q
        and cypher_dict = None and rows = "[]" and label = "[]" and clause = "[]"
        and records = "[]" and nodes = "[]", OF example_get_session]
    by auto
  from a b c d show ?thesis by simp
qed

text \<open>
  C5. When the driver returns the records of the query, \<open>query_list_multiple_fields\<close>
  returns one tuple per record, holding the values of the record in the order of its
  fields, and \<open>query_list_single_field\<close> returns the value of the named field of each
  record (None for a record without that field); both keep the order of the records.
\<close>

theorem reshape_to_tuples:
  assumes "get_session st = (Inr sess, st1)"
    and "s_run sess (calls st1) cypher (case cypher_dict of None \<Rightarrow> [] | Some d \<Rightarrow> d) = Inr rows"
  shows "fst (query_list_multiple_fields cypher cypher_dict st) = Inr (map (map snd) rows)
       \<and> (\<exists>result_list.
             fst (query_list_single_field field_name cypher cypher_dict st) = Inr result_list
           \<and> length result_list = length rows
           \<and> (\<forall>i < length rows.
                 (\<forall>v. map_of (rows ! i) field_name = Some v \<longrightarrow> result_list ! i = v)
               \<and> (field_name \<notin> fst ` set (rows ! i) \<longrightarrow> result_list ! i = VNone)))"
proof
  from assms show "fst (query_list_multiple_fields cypher cypher_dict st) = Inr (map (map snd) rows)"
    by (simp add: query_list_multiple_fields_def session_run_def tuple_of_record_def)
next
  from assms have "fst (query_list_single_field field_name cypher cypher_dict st) =
      Inr (map (\<lambda>record. record_value record field_name) rows)"
    by (simp add: query_list_single_field_def session_run_def)
  moreover have "\<forall>i < length rows.
      (\<forall>v. map_of (rows ! i) field_name = Some v \<longrightarrow>
           map (\<lambda>record. record_value record field_name) rows ! i = v)
    \<and> (field_name \<notin> fst ` set (rows ! i) \<longrightarrow>
           map (\<lambda>record. record_value record field_name) rows ! i = VNone)"
    by (auto simp: record_value_def map_of_eq_None_iff [symmetric])
  ultimately show "\<exists>result_list.
             fst (query_list_single_field field_name cypher cypher_dict st) = Inr result_list
           \<and> length result_list = length rows
           \<and> (\<forall>i < length rows.
                 (\<forall>v. map_of (rows ! i) field_name = Some v \<longrightarrow> result_list ! i = v)
               \<and> (field_name \<notin> fst ` set (rows ! i) \<longrightarrow> result_list ! i = VNone))"
    by (intro exI [of _ "map (\<lambda>record. record_value record field_name) rows"]) simp
qed

theorem reshape_to_tuples_witness:
  "fst (query_list_multiple_fields ''MATCH (b) RETURN b.name, r.value'' None
          (example_system [[(''b.name'', VStr ''tgttc''), (''r.value'', VInt 279)],
                           [(''b.name'', VStr ''negt''), (''r.value'', VInt 4)]])) =
     Inr [[VStr ''tgttc'', VInt 279], [VStr ''negt'', VInt 4]]
   \<and> fst (query_list_single_field ''b.name'' ''MATCH (b) RETURN b.name, r.value'' None
          (example_system [[(''b.name'', VStr ''tgttc''), (''r.value'', VInt 279)],
                           [(''b.name'', VStr ''negt''), (''r.value'', VInt 4)]])) =
     Inr [VStr ''tgttc'', VStr ''negt'']"
proof -
  let ?rows = "[[(''b.name'', VStr ''tgttc''), (''r.value'', VInt 279)],
                [(''b.name'', VStr ''negt''), (''r.value'', VInt 4)]]"
  let ?q = "''MATCH (b) RETURN b.name, r.value''"
  note inst = reshape_to_tuples [where st = "example_system ?rows" and cypher = ?q
        and cypher_dict = None and rows = ?rows and field_name = "''b.name''",
        OF example_get_session]
  have a: "fst (query_list_multiple_fields ?q None (example_system ?rows)) =
      Inr [[VStr ''tgttc'', VInt 279], [VStr ''negt'', VInt 4]]"
    using inst by simp
  obtain vs where vs: "fst (query_list_single_field ''b.name'' ?q None (example_system ?rows)) = Inr vs"
      "length vs = 2" "vs ! 0 = VStr ''tgttc''" "vs ! 1 = VStr ''negt''"
    using inst by (auto simp: All_less_Suc)
  from vs(2-4) have "vs = [VStr ''tgttc'', VStr ''negt'']"
    by (cases vs; cases "tl vs") auto
  with a vs(1) show ?thesis by simp
qed

section \<open>Facts about sequences of calls\<close>

lemma session_run_state:
  "snd (session_run s q ps st) = st\<lparr>calls := calls st @ [CallRun (sid s) q ps]\<rparr>"
  by (simp add: session_run_def Let_def split: sum.splits)


lemma get_session_driver:
  "get_session st = (r, st1) \<Longrightarrow> p_driver (self st1) = p_driver (self st)"
  by (auto simp: get_session_def new_session_def Let_def split: option.splits sum.splits)


lemma snd_after_session:
  "snd (case get_session st of
          (Inl e, st1) \<Rightarrow> (Inl e, st1)
        | (Inr sess, st1) \<Rightarrow> f sess st1) =
   (case get_session st of
      (Inl e, st1) \<Rightarrow> st1
    | (Inr sess, st1) \<Rightarrow> snd (f sess st1))"
  by (cases "get_session st") (simp split: sum.splits)

lemma snd_after_run:
  "snd (case session_run sess q ps st1 of
          (Inl e, st2) \<Rightarrow> (Inl e, st2)
        | (Inr x, st2) \<Rightarrow> (f x, st2)) =
   st1\<lparr>calls := calls st1 @ [CallRun (sid sess) q ps]\<rparr>"
  using session_run_state [of sess q ps st1]
  by (cases "session_run sess q ps st1") (simp split: sum.splits)

lemma snd_after_run_fallible:
  "snd (case session_run sess q ps st1 of
          (Inl e, st2) \<Rightarrow> (Inl e, st2)
        | (Inr x, st2) \<Rightarrow> (case f x of Inl e \<Rightarrow> (Inl e, st2) | Inr y \<Rightarrow> (g y, st2))) =
   st1\<lparr>calls := calls st1 @ [CallRun (sid sess) q ps]\<rparr>"
  using session_run_state [of sess q ps st1]
  by (cases "session_run sess q ps st1") (simp split: sum.splits)

lemma snd_retrieve_node_by_label_and_id:
  "snd (retrieve_node_by_label_and_id label id_value st) =
    (case get_session st of
       (Inl e, st1) \<Rightarrow> st1
     | (Inr s, st1) \<Rightarrow> st1\<lparr>calls := calls st1 @
         [CallRun (sid s) (''MATCH (n:'' @ label @ '' {id:$id}) RETURN n'') [(''id'', VInt id_value)]]\<rparr>)"
proof -
  have "snd (case session_run sess q ps st1 of
          (Inl e, st2) \<Rightarrow> (Inl e, st2)
        | (Inr result_obj, st2) \<Rightarrow>
            (case single result_obj of
               None \<Rightarrow> (Inr None, st2)
             | Some record \<Rightarrow>
                 (case items_of (record_getitem record 0) of
                    Inl e \<Rightarrow> (Inl e, st2)
                  | Inr node_as_items \<Rightarrow> (Inr (Some (py_dict node_as_items)), st2)))) =
     st1\<lparr>calls := calls st1 @ [CallRun (sid sess) q ps]\<rparr>" for sess q ps st1
    using session_run_state [of sess q ps st1]
    by (cases "session_run sess q ps st1") (simp split: sum.splits option.splits)
  then show ?thesis
    by (simp only: retrieve_node_by_label_and_id_def Let_def snd_after_session)
qed

lemma snd_retrieve_node_by_label_and_clause:
  "snd (retrieve_node_by_label_and_clause label clause st) =
    (case get_session st of
       (Inl e, st1) \<Rightarrow> st1
     | (Inr s, st1) \<Rightarrow> st1\<lparr>calls := calls st1 @
         [CallRun (sid s) (''MATCH (n:'' @ label @ '') WHERE '' @ clause @ '' RETURN n'') []]\<rparr>)"
  by (simp only: retrieve_node_by_label_and_clause_def Let_def snd_after_session
      snd_after_run_fallible)

lemma snd_retrieve_children:
  "snd (retrieve_children label id_value rel_name st) =
    (case get_session st of
       (Inl e, st1) \<Rightarrow> st1
     | (Inr s, st1) \<Rightarrow> st1\<lparr>calls := calls st1 @
         [CallRun (sid s) (''MATCH (n:'' @ label @ '' {id:$id})-[:'' @ rel_name @ '']->(m) RETURN m'')
            [(''id'', id_value), (''rel_name'', VStr rel_name)]]\<rparr>)"
  by (simp only: retrieve_children_def Let_def snd_after_session snd_after_run_fallible)

lemma snd_query_list_single_field:
  "snd (query_list_single_field field_name cypher cypher_dict st) =
    (case get_session st of
       (Inl e, st1) \<Rightarrow> st1
     | (Inr s, st1) \<Rightarrow> st1\<lparr>calls := calls st1 @
         [CallRun (sid s) cypher (case cypher_dict of None \<Rightarrow> [] | Some d \<Rightarrow> d)]\<rparr>)"
  by (simp only: query_list_single_field_def Let_def snd_after_session snd_after_run)

lemma snd_query_list_multiple_fields_dict:
  "snd (query_list_multiple_fields_dict cypher cypher_dict st) =
    (case get_session st of
       (Inl e, st1) \<Rightarrow> st1
     | (Inr s, st1) \<Rightarrow> st1\<lparr>calls := calls st1 @
         [CallRun (sid s) cypher (case cypher_dict of None \<Rightarrow> [] | Some d \<Rightarrow> d)]\<rparr>)"
  by (simp only: query_list_multiple_fields_dict_def Let_def snd_after_session snd_after_run)

lemma snd_query_list_multiple_fields:
  "snd (query_list_multiple_fields cypher cypher_dict st) =
    (case get_session st of
       (Inl e, st1) \<Rightarrow> st1
     | (Inr s, st1) \<Rightarrow> st1\<lparr>calls := calls st1 @
         [CallRun (sid s) cypher (case cypher_dict of None \<Rightarrow> [] | Some d \<Rightarrow> d)]\<rparr>)"
  by (simp only: query_list_multiple_fields_def Let_def snd_after_session snd_after_run)

lemma snd_run_query:
  "snd (run_query cypher cypher_dict st) =
    (case get_session st of
       (Inl e, st1) \<Rightarrow> st1
     | (Inr s, st1) \<Rightarrow> st1\<lparr>calls := calls st1 @
         [CallRun (sid s) cypher (case cypher_dict of None \<Rightarrow> [] | Some d \<Rightarrow> d)]\<rparr>)"
  by (simp only: run_query_def Let_def snd_after_session session_run_state)

lemma snd_case_outcome:
  "snd (case p of (Inl e, st1) \<Rightarrow> (Inl e, st1) | (Inr x, st1) \<Rightarrow> (f x, st1)) = snd p"
  by (cases p) (simp split: sum.splits)

lemma snd_next_available_id:
  "snd (next_available_id label clause st) =
    (case get_session st of
       (Inl e, st1) \<Rightarrow> st1
     | (Inr s, st1) \<Rightarrow> st1\<lparr>calls := calls st1 @
         [CallRun (sid s)
            (if clause = [] then ''MATCH (n:'' @ label @ '') RETURN 1+max(n.id) AS max_value''
             else ''MATCH (n:'' @ label @ '' {'' @ clause @ ''}) RETURN 1+max(n.id) AS max_value'')
            []]\<rparr>)"
proof -
  have "snd (case p of
          (Inl e, st1) \<Rightarrow> (Inl e, st1)
        | (Inr result_list, st1) \<Rightarrow>
            (case result_list of
               [] \<Rightarrow> (Inl IndexError, st1)
             | result # _ \<Rightarrow> (if result = VNone then (Inr (VInt 1), st1) else (Inr result, st1)))) =
     snd p" for p :: "(val list) outcome"
    by (cases p) (simp split: sum.splits list.splits)
  then show ?thesis
    using snd_query_list_single_field [of "''max_value''" _ None st]
    by (simp only: next_available_id_def Let_def option.case)
qed

lemma snd_create_node:
  "snd (create_node label items st) =
    (case get_session st of
       (Inl e, st1) \<Rightarrow> st1
     | (Inr s, st1) \<Rightarrow> st1\<lparr>calls := calls st1 @
         [CallRun (sid s)
            (''CREATE (:'' @ label @ '' {''
               @ py_join '', '' (map (\<lambda>key. key @ '': $'' @ key) (map fst items)) @ ''})'')
            items]\<rparr>)"
  using snd_run_query [of _ "Some items" st]
  by (simp only: create_node_def Let_def snd_case_outcome option.case)

lemma snd_change_single_attribute_by_id:
  "snd (change_single_attribute_by_id label node_id attribute_name new_attribute_value st) =
    (case get_session st of
       (Inl e, st1) \<Rightarrow> st1
     | (Inr s, st1) \<Rightarrow> st1\<lparr>calls := calls st1 @
         [CallRun (sid s)
            (''MATCH (n:'' @ label @ '') WHERE n.id = $node_id SET n.'' @ attribute_name
               @ '' = $new_attribute_value'')
            [(''node_id'', VInt node_id), (''new_attribute_value'', new_attribute_value)]]\<rparr>)"
  using snd_run_query [of _ "Some [(''node_id'', VInt node_id), (''new_attribute_value'', new_attribute_value)]" st]
  by (simp only: change_single_attribute_by_id_def Let_def snd_case_outcome option.case)

lemma invoke_data_operation:
  assumes "data_operation m"
  shows "\<exists>q ps. invoke m st =
    (case get_session st of
       (Inl e, st1) \<Rightarrow> st1
     | (Inr s, st1) \<Rightarrow> st1\<lparr>calls := calls st1 @ [CallRun (sid s) q ps]\<rparr>)"
proof (cases m)
  case (RetrieveNodeByLabelAndId label id_value)
  show ?thesis
    unfolding RetrieveNodeByLabelAndId invoke.simps snd_retrieve_node_by_label_and_id by (intro exI, rule refl)
next
  case (RetrieveNodeByLabelAndClause label clause)
  show ?thesis
    unfolding RetrieveNodeByLabelAndClause invoke.simps snd_retrieve_node_by_label_and_clause
    by (intro exI, rule refl)
next
  case (RetrieveChildren label id_value rel_name)
  show ?thesis
    unfolding RetrieveChildren invoke.simps snd_retrieve_children by (intro exI, rule refl)
next
  case (QueryListSingleField field_name cypher cypher_dict)
  show ?thesis
    unfolding QueryListSingleField invoke.simps snd_query_list_single_field by (intro exI, rule refl)
next
  case (QueryListMultipleFieldsDict cypher cypher_dict)
  show ?thesis
    unfolding QueryListMultipleFieldsDict invoke.simps snd_query_list_multiple_fields_dict
    by (intro exI, rule refl)
next
  case (QueryListMultipleFields cypher cypher_dict)
  show ?thesis
    unfolding QueryListMultipleFields invoke.simps snd_query_list_multiple_fields by (intro exI, rule refl)
next
  case (NextAvailableId label clause)
  show ?thesis
    unfolding NextAvailableId invoke.simps snd_next_available_id by (intro exI, rule refl)
next
  case (CreateNode label items)
  show ?thesis
    unfolding CreateNode invoke.simps snd_create_node by (intro exI, rule refl)
next
  case (ChangeSingleAttributeById label node_id attribute_name new_attribute_value)
  show ?thesis
    unfolding ChangeSingleAttributeById invoke.simps snd_change_single_attribute_by_id by (intro exI, rule refl)
next
  case (RunQuery cypher cypher_dict)
  show ?thesis
    unfolding RunQuery invoke.simps snd_run_query by (intro exI, rule refl)
qed (use assms in simp_all)

lemma after_session_driver:
  "p_driver (self (case get_session st of
                     (Inl e, st1) \<Rightarrow> st1
                   | (Inr s, st1) \<Rightarrow> st1\<lparr>calls := f s st1\<rparr>)) = p_driver (self st)"
proof (cases "get_session st")
  case (Pair r st1)
  with get_session_driver [OF Pair] show ?thesis by (cases r) simp_all
qed

lemma close_self: "self (snd (close st)) = self st"
  by (simp add: close_def Let_def split: option.splits)

lemma new_session_driver: "p_driver (self (snd (new_session st))) = p_driver (self st)"
  by (simp add: new_session_def Let_def split: option.splits sum.splits)

lemma query_NOT_IN_USE_state: "snd (query_NOT_IN_USE query db st) = st"
  by (simp add: query_NOT_IN_USE_def split: option.splits)

lemma invoke_driver: "p_driver (self (invoke m st)) = p_driver (self st)"
proof (cases "data_operation m")
  case True
  from invoke_data_operation [OF True, of st] obtain q ps where eq:
    "invoke m st = (case get_session st of
       (Inl e, st1) \<Rightarrow> st1
     | (Inr s, st1) \<Rightarrow> st1\<lparr>calls := calls st1 @ [CallRun (sid s) q ps]\<rparr>)"
    by (elim exE)
  show ?thesis
    unfolding eq by (rule after_session_driver)
next
  case False
  then consider "m = Close" | "m = NewSession" | "m = GetSession"
    | query db where "m = QueryNotInUse query db"
    by (cases m) simp_all
  then show ?thesis
  proof cases
    case 1
    then show ?thesis by (simp add: close_self)
  next
    case 2
    then show ?thesis by (simp add: new_session_driver)
  next
    case 3
    then show ?thesis using get_session_driver [of st] by (cases "get_session st") simp
  next
    case 4
    then show ?thesis by (simp add: query_NOT_IN_USE_state)
  qed
qed

lemma invoke_all_driver: "p_driver (self (invoke_all ms st)) = p_driver (self st)"
  unfolding invoke_all_def
  by (induction ms arbitrary: st) (simp_all add: invoke_driver)

lemma invoke_data_operation_stored:
  assumes "data_operation m" and "p_current_session (self st) = Some s"
  shows "\<exists>q ps. invoke m st = st\<lparr>calls := calls st @ [CallRun (sid s) q ps]\<rparr>"
proof -
  from invoke_data_operation [OF assms(1), of st] obtain q ps where eq:
    "invoke m st = (case get_session st of
       (Inl e, st1) \<Rightarrow> st1
     | (Inr s, st1) \<Rightarrow> st1\<lparr>calls := calls st1 @ [CallRun (sid s) q ps]\<rparr>)"
    by (elim exE)
  from eq get_session_stored [OF assms(2)]
  have "invoke m st = st\<lparr>calls := calls st @ [CallRun (sid s) q ps]\<rparr>" by simp
  then show ?thesis by (intro exI)
qed









text \<open>
  C8. On an object whose constructor returned, \<open>_driver\<close> is set, and it stays what it is
  through every sequence of method calls (\<open>close\<close> among them); so \<open>new_session\<close> never
  raises the Exception of its first branch, "self._driver isn't set".
\<close>

theorem driver_never_reset:
  assumes "init mk url user pwd = Inr (self st)"
  shows "p_driver (self st) \<noteq> None
       \<and> p_driver (self (invoke_all ms st)) = p_driver (self st)
       \<and> fst (new_session (invoke_all ms st)) \<noteq>
           Inl (Exception ''Calling the session() method, but self._driver isn't set'')"
proof -
  have set: "p_driver (self st) \<noteq> None"
  proof (cases "mk url user pwd")
    case (Inl ex)
    with assms show ?thesis by (simp add: init_def)
  next
    case (Inr d0)
    with assms have "\<lparr>p_driver = Some d0, p_current_session = None\<rparr> = self st"
      by (simp add: init_def)
    from this [symmetric] show ?thesis by simp
  qed
  have same: "p_driver (self (invoke_all ms st)) = p_driver (self st)"
    by (rule invoke_all_driver)
  from set same obtain d where "p_driver (self (invoke_all ms st)) = Some d" by auto
  then have "fst (new_session (invoke_all ms st)) \<noteq>
           Inl (Exception ''Calling the session() method, but self._driver isn't set'')"
    by (simp add: new_session_def Let_def split: sum.splits)
  with set same show ?thesis by simp
qed

text \<open>
  C9. \<open>close\<close> only forwards to the driver's \<open>close\<close> (one call, when the driver is set) and
  leaves \<open>_driver\<close> and \<open>_current_session\<close> as they are. So when a session is stored,
  \<open>get_session\<close> after \<open>close\<close> still returns it, and every data operation after \<open>close\<close>
  still sends its \<open>run\<close> call to that stored session: the wrapper itself raises nothing.
\<close>

theorem close_keeps_fields:
  "self (snd (close st)) = self st
   \<and> calls (snd (close st)) =
       (if p_driver (self st) = None then calls st else calls st @ [CallClose])
   \<and> (\<forall>s. p_current_session (self st) = Some s \<longrightarrow>
         get_session (snd (close st)) = (Inr s, snd (close st))
       \<and> (\<forall>m. data_operation m \<longrightarrow>
             (\<exists>q ps. invoke m (snd (close st)) =
                (snd (close st))\<lparr>calls := calls (snd (close st)) @ [CallRun (sid s) q ps]\<rparr>)))"
proof (intro conjI allI impI)
  show "self (snd (close st)) = self st" by (rule close_self)
  show "calls (snd (close st)) =
       (if p_driver (self st) = None then calls st else calls st @ [CallClose])"
    by (simp add: close_def Let_def split: option.splits)
next
  fix s assume "p_current_session (self st) = Some s"
  then have stored: "p_current_session (self (snd (close st))) = Some s"
    by (simp add: close_self)
  then show "get_session (snd (close st)) = (Inr s, snd (close st))"
    by (rule get_session_stored)
  fix m assume "data_operation m"
  then show "\<exists>q ps. invoke m (snd (close st)) =
                (snd (close st))\<lparr>calls := calls (snd (close st)) @ [CallRun (sid s) q ps]\<rparr>"
    using stored by (rule invoke_data_operation_stored)
qed


lemma example_stored:
  "p_current_session (self (snd (new_session (example_system records)))) =
     Some \<lparr>sid = 0, s_run = (\<lambda>tr' cypher ps. Inr records)\<rparr>
   \<and> p_driver (self (snd (new_session (example_system records)))) = Some (example_driver records)
   \<and> calls (snd (new_session (example_system records))) = [CallSession]"
  by (simp add: new_session_def example_system_def example_driver_def)


theorem driver_never_reset_witness:
  "init (\<lambda>url user pwd. Inr (example_driver [])) ''neo4j://localhost:7687'' ''neo4j'' ''pwd'' =
     Inr (self (example_system []))
   \<and> p_driver (self (example_system [])) \<noteq> None
   \<and> p_driver (self (invoke_all [Close, RunQuery ''RETURN 1'' None, Close] (example_system []))) =
       Some (example_driver [])
   \<and> fst (new_session (invoke_all [Close, RunQuery ''RETURN 1'' None, Close] (example_system []))) \<noteq>
       Inl (Exception ''Calling the session() method, but self._driver isn't set'')"
proof -
  have made: "init (\<lambda>url user pwd. Inr (example_driver [])) ''neo4j://localhost:7687'' ''neo4j'' ''pwd'' =
     Inr (self (example_system []))"
    by (simp add: init_def example_system_def)
  from driver_never_reset [OF made, of "[Close, RunQuery ''RETURN 1'' None, Close]"] made
  show ?thesis by (simp add: example_system_def)
qed

theorem close_keeps_fields_witness:
  "self (snd (close (snd (new_session (example_system []))))) =
     \<lparr>p_driver = Some (example_driver []),
      p_current_session = Some \<lparr>sid = 0, s_run = (\<lambda>tr' cypher ps. Inr [])\<rparr>\<rparr>
   \<and> calls (snd (close (snd (new_session (example_system []))))) = [CallSession, CallClose]
   \<and> fst (get_session (snd (close (snd (new_session (example_system [])))))) =
       Inr \<lparr>sid = 0, s_run = (\<lambda>tr' cypher ps. Inr [])\<rparr>
   \<and> (\<exists>q ps. calls (invoke (RunQuery ''RETURN 1'' None)
                      (snd (close (snd (new_session (example_system [])))))) =
         [CallSession, CallClose, CallRun 0 q ps])"
proof -
  let ?st = "snd (new_session (example_system []))"
  let ?s = "\<lparr>sid = 0, s_run = (\<lambda>tr' cypher ps. Inr [])\<rparr> :: session"
  note inst = close_keeps_fields [of ?st]
  note ex = example_stored [of "[]"]
  have self_eq: "self ?st = \<lparr>p_driver = Some (example_driver []), p_current_session = Some ?s\<rparr>"
    by (simp add: new_session_def example_system_def example_driver_def)
  from inst self_eq have a: "self (snd (close ?st)) =
      \<lparr>p_driver = Some (example_driver []), p_current_session = Some ?s\<rparr>"
    by simp
  from inst ex have b: "calls (snd (close ?st)) = [CallSession, CallClose]" by simp
  from inst ex have c: "fst (get_session (snd (close ?st))) = Inr ?s" by simp
  have op: "data_operation (RunQuery ''RETURN 1'' None)" by simp
  from ex have "p_current_session (self ?st) = Some ?s" by (rule conjunct1)
  with inst op have "\<exists>q ps. invoke (RunQuery ''RETURN 1'' None) (snd (close ?st)) =
      (snd (close ?st))\<lparr>calls := calls (snd (close ?st)) @ [CallRun (sid ?s) q ps]\<rparr>"
    by blast
  then obtain q ps where "invoke (RunQuery ''RETURN 1'' None) (snd (close ?st)) =
      (snd (close ?st))\<lparr>calls := calls (snd (close ?st)) @ [CallRun (sid ?s) q ps]\<rparr>"
    by (elim exE)
  then have "calls (invoke (RunQuery ''RETURN 1'' None) (snd (close ?st))) =
      [CallSession, CallClose, CallRun 0 q ps]"
    using b by simp
  then have d: "\<exists>q ps. calls (invoke (RunQuery ''RETURN 1'' None) (snd (close ?st))) =
      [CallSession, CallClose, CallRun 0 q ps]"
    by (intro exI)
  from a b c d show ?thesis by (intro conjI)
qed

end
